theory Spec2Isabelle
  imports Main
begin

section \<open>The device worker's HTTP client and profile manager\<close>

text \<open>
  A shallow embedding of \<^verbatim>\<open>internal/client/http/client.go\<close> (package \<^verbatim>\<open>client\<close>) and of
  the profile manager's control loop (package \<^verbatim>\<open>state\<close>). Go's \<^verbatim>\<open>[]byte\<close> and
  \<^verbatim>\<open>string\<close> are both byte sequences, here \<open>char list\<close>; a Go \<^verbatim>\<open>error\<close> is its
  message, and the \<^verbatim>\<open>nil\<close> error is \<open>None\<close>.
\<close>

subsection \<open>Data\<close>

type_synonym bytes = "char list"

type_synonym goError = "string option"

text \<open>What a Go call leaves behind: the values it returns, or a run-time panic.\<close>

datatype 'a outcome = Returned 'a | Panicked string

text \<open>
  The certificate manager is an object of its own, reached through the pointer
  \<^verbatim>\<open>c.certMananger\<close>. The client reads it through \<^verbatim>\<open>Signature()\<close> and
  \<^verbatim>\<open>GetCertificates()\<close> only; a value of this record is what those two methods return at
  the moment of one call.
\<close>

datatype privateKey = ECDSAPrivateKey bytes | RSAPrivateKey bytes | OtherPrivateKey

record certManager =
  Signature :: bytes
  caRoot :: "bytes list"
  certRaw :: bytes
  key :: privateKey

datatype tlsCertificate = TlsCertificate bytes bytes

record tlsConfig =
  RootCAs :: "bytes list"
  Certificates :: "tlsCertificate list"

datatype proxy = ProxyFromEnvironment

text \<open>
  A round tripper is the base \<^verbatim>\<open>http.Transport\<close> or a decorator around another round
  tripper. \<open>Middleware n t\<close> stands for a decorator named \<open>n\<close> that acts on the request,
  hands it to \<open>t\<close> and then acts on the response.
\<close>

datatype roundTripper =
  HttpTransport proxy "tlsConfig option"
| Middleware string roundTripper

type_synonym transportWrapper = "roundTripper \<Rightarrow> roundTripper"

record httpClient =
  Transport :: "roundTripper option"
  Timeout :: int

record client =
  certificateSignature :: bytes
  serverURL :: string
  transportWrappers :: "transportWrapper list"
  transport :: "roundTripper option"

text \<open>
  The functions of Go's standard library that the client calls on key material, with the
  results the client looks at: \<^verbatim>\<open>pem.Encode\<close> by the bytes it leaves in the buffer,
  \<^verbatim>\<open>tls.X509KeyPair\<close> by its certificate or its error.
\<close>

record x509lib =
  pemEncode :: "string \<Rightarrow> bytes \<Rightarrow> bytes"
  MarshalECPrivateKey :: "bytes \<Rightarrow> bytes"
  MarshalPKCS1PrivateKey :: "bytes \<Rightarrow> bytes"
  X509KeyPair :: "bytes \<Rightarrow> bytes \<Rightarrow> string + tlsCertificate"

subsection \<open>Building the transport\<close>

definition certPEM :: "x509lib \<Rightarrow> certManager \<Rightarrow> bytes" where
  "certPEM lib cm = pemEncode lib ''CERTIFICATE'' (certRaw cm)"

definition privKeyPEM :: "x509lib \<Rightarrow> certManager \<Rightarrow> bytes" where
  "privKeyPEM lib cm =
     (case key cm of
        ECDSAPrivateKey t \<Rightarrow> pemEncode lib ''EC PRIVATE KEY'' (MarshalECPrivateKey lib t)
      | RSAPrivateKey t \<Rightarrow> pemEncode lib ''RSA PRIVATE KEY'' (MarshalPKCS1PrivateKey lib t)
      | OtherPrivateKey \<Rightarrow> [])"

definition createTLSConfig :: "x509lib \<Rightarrow> certManager \<Rightarrow> string + tlsConfig" where
  "createTLSConfig lib cm =
     (case X509KeyPair lib (certPEM lib cm) (privKeyPEM lib cm) of
        Inl err \<Rightarrow> Inl (''cannot create x509 key pair: '' @ err)
      | Inr cc \<Rightarrow> Inr \<lparr>RootCAs = caRoot cm, Certificates = [cc]\<rparr>)"

text \<open>
  The loop \<^verbatim>\<open>for i := len(c.transportWrappers) - 1; i >= 0; i-- { result = c.transportWrappers[i](result) }\<close>,
  with the Go \<^verbatim>\<open>int\<close> index \<open>i\<close>.
\<close>

function wrapLoop :: "transportWrapper list \<Rightarrow> int \<Rightarrow> roundTripper \<Rightarrow> roundTripper" where
  "wrapLoop ws i result = (if i \<ge> 0 then wrapLoop ws (i - 1) ((ws ! nat i) result) else result)"
  by pat_completeness auto
termination
  by (relation "measure (\<lambda>(ws, i, result). nat (i + 1))") auto

declare wrapLoop.simps [simp del]

text \<open>
  \<^verbatim>\<open>createTransport\<close> returns its two results together: the wrapped transport is built
  also when the TLS configuration failed (around a \<^verbatim>\<open>nil\<close> configuration), next to the error.
\<close>

definition createTransport :: "x509lib \<Rightarrow> certManager \<Rightarrow> client \<Rightarrow> roundTripper \<times> goError" where
  "createTransport lib cm c =
     (let (tlsConfig, err) =
            (case createTLSConfig lib cm of
               Inl e \<Rightarrow> (None, Some e)
             | Inr cfg \<Rightarrow> (Some cfg, None));
          result = HttpTransport ProxyFromEnvironment tlsConfig;
          result = wrapLoop (transportWrappers c) (int (length (transportWrappers c)) - 1) result
      in (result, err))"

subsection \<open>The rotation guard\<close>

definition recreateMsg :: string where
  "recreateMsg = ''certificates changed. recreate transport''"

definition second :: int where
  "second = 1000000000"

text \<open>
  \<^verbatim>\<open>getClient\<close> returns the client or the error, the \<^verbatim>\<open>Client\<close> as the call leaves it,
  and the lines the call wrote to the log at level info.
\<close>

definition getClient ::
  "x509lib \<Rightarrow> certManager \<Rightarrow> client \<Rightarrow> (string + httpClient) \<times> client \<times> string list" where
  "getClient lib cm c =
     (if certificateSignature c \<noteq> Signature cm then
        (case createTransport lib cm c of
           (t, Some err) \<Rightarrow> (Inl err, c, [recreateMsg])
         | (t, None) \<Rightarrow>
             (let c' = c\<lparr>certificateSignature := Signature cm, transport := Some t\<rparr>
              in (Inr \<lparr>Transport = transport c', Timeout = 2 * second\<rparr>, c', [recreateMsg])))
      else (Inr \<lparr>Transport = transport c, Timeout = 2 * second\<rparr>, c, []))"

text \<open>
  \<^verbatim>\<open>New\<close>, given \<^verbatim>\<open>url.Parse\<close> and the log wrapper's \<^verbatim>\<open>Wrap\<close> method (of a file that is
  not part of this development). The server URL is kept in the form its \<^verbatim>\<open>String()\<close>
  method prints.
\<close>

definition New ::
  "(string \<Rightarrow> string + string) \<Rightarrow> transportWrapper \<Rightarrow> string \<Rightarrow> certManager option \<Rightarrow> string + client" where
  "New urlParse logWrap path certManager =
     (case certManager of
        None \<Rightarrow> Inl ''Certificate manager is missing''
      | Some _ \<Rightarrow>
          (case urlParse path of
             Inl err \<Rightarrow> Inl (''Server address error: '' @ err)
           | Inr url \<Rightarrow>
               Inr \<lparr>certificateSignature = [], serverURL = url,
                    transportWrappers = [logWrap], transport = None\<rparr>))"

subsection \<open>Requests and responses\<close>

definition certificateKey :: string where
  "certificateKey = ''certificate''"

definition rootUrl :: string where
  "rootUrl = ''/api/flotta-management/v1''"

datatype messageType = postDataMessageForDeviceType | getDataMessageForDeviceType

datatype actionType =
  enrolActionType | registerActionType | heartbeatActionType | configurationActionType

text \<open>
  The request builder belongs to another file of the package. A request under construction
  is the list of the builder's method calls, in the order the source makes them; \<^verbatim>\<open>Build\<close>
  is a parameter of the operations.
\<close>

datatype 'p builderCall =
  Type messageType
| Action actionType
| Header string string
| Url string
| Body 'p

text \<open>
  The value \<^verbatim>\<open>json.Unmarshal\<close> stores in a field of type \<^verbatim>\<open>interface{}\<close>: \<^verbatim>\<open>nil\<close>, a
  \<^verbatim>\<open>bool\<close>, a number (a \<^verbatim>\<open>float64\<close> in Go; no operation here reads its value), a
  \<^verbatim>\<open>string\<close>, a slice, or a \<^verbatim>\<open>map[string]interface{}\<close> (here the list of its entries,
  read with \<open>map_of\<close>).
\<close>

datatype json =
  JNull
| JBool bool
| JNumber int
| JString string
| JArray "json list"
| JObject "(string \<times> json) list"

record messageResponse =
  Content :: json

text \<open>
  Of an \<^verbatim>\<open>http.Response\<close> the client reads the status code and the body; \<open>ReadAllBody\<close> is
  what \<^verbatim>\<open>ioutil.ReadAll(res.Body)\<close> returns.
\<close>

record response =
  StatusCode :: int
  ReadAllBody :: "string + bytes"

record registrationResponse =
  SignedCSR :: bytes

text \<open>
  What the operations call outside this file: the builder's \<^verbatim>\<open>Build\<close>, \<^verbatim>\<open>http.Client.Do\<close>,
  \<^verbatim>\<open>json.Unmarshal\<close> into a \<^verbatim>\<open>models.MessageResponse\<close>, \<^verbatim>\<open>json.Marshal\<close>,
  \<^verbatim>\<open>json.Unmarshal\<close> into a \<^verbatim>\<open>models.DeviceConfiguration\<close> (type \<open>'m\<close>), the translation
  \<^verbatim>\<open>configurationModel2Entity\<close> into an \<^verbatim>\<open>entities.DeviceConfiguration\<close> (type \<open>'d\<close>)
  and the zero value of that type.
\<close>

record ('p, 'req, 'm, 'd) deps =
  x509 :: x509lib
  Build :: "'p builderCall list \<Rightarrow> string + 'req"
  Do :: "httpClient \<Rightarrow> 'req \<Rightarrow> string + response"
  UnmarshalMessage :: "bytes \<Rightarrow> string + messageResponse"
  Marshal :: "json \<Rightarrow> string + bytes"
  UnmarshalConfiguration :: "bytes \<Rightarrow> string + 'm"
  configurationModel2Entity :: "'m \<Rightarrow> 'd"
  emptyDeviceConfiguration :: 'd

text \<open>\<^verbatim>\<open>fmt.Sprintf\<close> with the verb \<^verbatim>\<open>%d\<close> on an \<^verbatim>\<open>int\<close>.\<close>

fun showNat :: "nat \<Rightarrow> string" where
  "showNat n =
     (if n < 10 then [''0123456789'' ! n]
      else showNat (n div 10) @ [''0123456789'' ! (n mod 10)])"

declare showNat.simps [simp del]

definition showInt :: "int \<Rightarrow> string" where
  "showInt i = (if i < 0 then CHR ''-'' # showNat (nat (- i)) else showNat (nat i))"

text \<open>\<^verbatim>\<open>fmt.Sprintf("%s/%s/data/%s/out", c.serverURL.String(), rootUrl, deviceID)\<close> and its twin.\<close>

definition outUrl :: "client \<Rightarrow> string \<Rightarrow> string" where
  "outUrl c deviceID = serverURL c @ ''/'' @ rootUrl @ ''/data/'' @ deviceID @ ''/out''"

definition inUrl :: "client \<Rightarrow> string \<Rightarrow> string" where
  "inUrl c deviceID = serverURL c @ ''/'' @ rootUrl @ ''/data/'' @ deviceID @ ''/in''"

definition enrolRequest :: "client \<Rightarrow> string \<Rightarrow> 'p \<Rightarrow> 'p builderCall list" where
  "enrolRequest c deviceID enrolInfo =
     [Type postDataMessageForDeviceType, Action enrolActionType,
      Header ''Content-Type'' ''application/json'', Url (outUrl c deviceID), Body enrolInfo]"

definition registerRequest :: "client \<Rightarrow> string \<Rightarrow> 'p \<Rightarrow> 'p builderCall list" where
  "registerRequest c deviceID registerInfo =
     [Type postDataMessageForDeviceType, Action registerActionType,
      Header ''Content-Type'' ''application/json'', Url (outUrl c deviceID), Body registerInfo]"

definition heartbeatRequest :: "client \<Rightarrow> string \<Rightarrow> 'p \<Rightarrow> 'p builderCall list" where
  "heartbeatRequest c deviceID heartbeat =
     [Type postDataMessageForDeviceType, Action heartbeatActionType,
      Url (outUrl c deviceID), Body heartbeat, Header ''Content-Type'' ''application/json'']"

definition configurationRequest :: "client \<Rightarrow> string \<Rightarrow> 'p builderCall list" where
  "configurationRequest c deviceID =
     [Type getDataMessageForDeviceType, Action configurationActionType,
      Header ''Content-Type'' ''application/json'', Url (inUrl c deviceID)]"

subsection \<open>Sending and decoding\<close>

text \<open>\<^verbatim>\<open>do\<close>: the response or the error, and the client and the log as \<^verbatim>\<open>getClient\<close> leaves them.\<close>

definition do ::
  "('p, 'req, 'm, 'd) deps \<Rightarrow> certManager \<Rightarrow> client \<Rightarrow> 'req \<Rightarrow>
   (string + response) \<times> client \<times> string list" where
  "do D cm c request =
     (case getClient (x509 D) cm c of
        (Inl err, c', lg) \<Rightarrow> (Inl err, c', lg)
      | (Inr cl, c', lg) \<Rightarrow> (Do D cl request, c', lg))"

text \<open>An error printed between single quotes, as the format \<^verbatim>\<open>'%w'\<close> does.\<close>

definition quoted :: "string \<Rightarrow> string" where
  "quoted err = [CHR 0x27] @ err @ [CHR 0x27]"

definition processResponse :: "('p, 'req, 'm, 'd) deps \<Rightarrow> response \<Rightarrow> string + messageResponse" where
  "processResponse D res =
     (case ReadAllBody res of
        Inl err \<Rightarrow> Inl (''cannot read response body '' @ quoted err)
      | Inr data \<Rightarrow>
          (case UnmarshalMessage D data of
             Inl err \<Rightarrow> Inl (''cannot read marshal body into message response '' @ quoted err)
           | Inr message \<Rightarrow> Inr message))"

text \<open>The name Go prints for the dynamic type of a decoded value.\<close>

fun dynType :: "json \<Rightarrow> string" where
  "dynType JNull = ''nil''"
| "dynType (JBool _) = ''bool''"
| "dynType (JNumber _) = ''float64''"
| "dynType (JString _) = ''string''"
| "dynType (JArray _) = ''[]interface {}''"
| "dynType (JObject _) = ''map[string]interface {}''"

subsection \<open>The operations\<close>

definition Enrol ::
  "('p, 'req, 'm, 'd) deps \<Rightarrow> certManager \<Rightarrow> client \<Rightarrow> string \<Rightarrow> 'p \<Rightarrow>
   goError \<times> client \<times> string list" where
  "Enrol D cm c deviceID enrolInfo =
     (case Build D (enrolRequest c deviceID enrolInfo) of
        Inl err \<Rightarrow> (Some (''cannot create enrollment request '' @ quoted err), c, [])
      | Inr request \<Rightarrow>
          (case do D cm c request of
             (Inl err, c', lg) \<Rightarrow> (Some (''cannot enrol device '' @ quoted err), c', lg)
           | (Inr resp, c', lg) \<Rightarrow>
               (if StatusCode resp \<ge> 400
                then (Some (''cannot enrol device. code: '' @ showInt (StatusCode resp)), c', lg)
                else (None, c', lg))))"

text \<open>
  \<^verbatim>\<open>Register\<close> ends in the type assertion \<^verbatim>\<open>cert.(string)\<close>, which has no second result:
  on a value that is not a string it panics.
\<close>

definition Register ::
  "('p, 'req, 'm, 'd) deps \<Rightarrow> certManager \<Rightarrow> client \<Rightarrow> string \<Rightarrow> 'p \<Rightarrow>
   (registrationResponse \<times> goError) outcome \<times> client \<times> string list" where
  "Register D cm c deviceID registerInfo =
     (case Build D (registerRequest c deviceID registerInfo) of
        Inl err \<Rightarrow>
          (Returned (\<lparr>SignedCSR = []\<rparr>, Some (''cannot create registration request '' @ quoted err)),
           c, [])
      | Inr request \<Rightarrow>
          (case do D cm c request of
             (Inl err, c', lg) \<Rightarrow>
               (Returned (\<lparr>SignedCSR = []\<rparr>, Some (''cannot register device '' @ quoted err)), c', lg)
           | (Inr res, c', lg) \<Rightarrow>
               (case processResponse D res of
                  Inl err \<Rightarrow> (Returned (\<lparr>SignedCSR = []\<rparr>, Some err), c', lg)
                | Inr message \<Rightarrow>
                    (case Content message of
                       JObject certMap \<Rightarrow>
                         (case map_of certMap certificateKey of
                            None \<Rightarrow>
                              (Returned (\<lparr>SignedCSR = []\<rparr>, Some ''cannot get certificate from payload''),
                               c', lg)
                          | Some cert \<Rightarrow>
                              (case cert of
                                 JString s \<Rightarrow> (Returned (\<lparr>SignedCSR = s\<rparr>, None), c', lg)
                               | _ \<Rightarrow>
                                   (Panicked (''interface conversion: interface {} is '' @ dynType cert
                                              @ '', not string''), c', lg)))
                     | _ \<Rightarrow>
                         (Returned (\<lparr>SignedCSR = []\<rparr>, Some ''payload content is not a map''),
                          c', lg)))))"

definition Heartbeat ::
  "('p, 'req, 'm, 'd) deps \<Rightarrow> certManager \<Rightarrow> client \<Rightarrow> string \<Rightarrow> 'p \<Rightarrow>
   goError \<times> client \<times> string list" where
  "Heartbeat D cm c deviceID heartbeat =
     (case Build D (heartbeatRequest c deviceID heartbeat) of
        Inl err \<Rightarrow> (Some (''cannot create heartbeat request '' @ quoted err), c, [])
      | Inr request \<Rightarrow>
          (case do D cm c request of
             (Inl err, c', lg) \<Rightarrow> (Some (''cannot send heartbeat '' @ quoted err), c', lg)
           | (Inr resp, c', lg) \<Rightarrow>
               (if StatusCode resp \<ge> 400
                then (Some (''cannot send heartbeat. code: '' @ showInt (StatusCode resp)), c', lg)
                else (None, c', lg))))"

definition GetConfiguration ::
  "('p, 'req, 'm, 'd) deps \<Rightarrow> certManager \<Rightarrow> client \<Rightarrow> string \<Rightarrow>
   ('d \<times> goError) \<times> client \<times> string list" where
  "GetConfiguration D cm c deviceID =
     (case Build D (configurationRequest c deviceID) of
        Inl err \<Rightarrow>
          ((emptyDeviceConfiguration D, Some (''cannot create configuration request '' @ quoted err)),
           c, [])
      | Inr request \<Rightarrow>
          (case do D cm c request of
             (Inl err, c', lg) \<Rightarrow>
               ((emptyDeviceConfiguration D, Some (''cannot get configuration '' @ quoted err)), c', lg)
           | (Inr res, c', lg) \<Rightarrow>
               (case processResponse D res of
                  Inl err \<Rightarrow> ((emptyDeviceConfiguration D, Some err), c', lg)
                | Inr message \<Rightarrow>
                    (case Content message of
                       JObject data \<Rightarrow>
                         (case map_of data ''configuration'' of
                            None \<Rightarrow>
                              ((emptyDeviceConfiguration D,
                                Some ''cannot find configuration data in payload''), c', lg)
                          | Some conf \<Rightarrow>
                              (case Marshal D conf of
                                 Inl err \<Rightarrow>
                                   ((emptyDeviceConfiguration D,
                                     Some (''cannot read configuration: '' @ quoted err)), c', lg)
                               | Inr j \<Rightarrow>
                                   (case UnmarshalConfiguration D j of
                                      Inl err \<Rightarrow>
                                        ((emptyDeviceConfiguration D,
                                          Some (''cannot read configuration: '' @ quoted err)), c', lg)
                                    | Inr m \<Rightarrow>
                                        ((configurationModel2Entity D m, None), c', lg))))
                     | _ \<Rightarrow>
                         ((emptyDeviceConfiguration D, Some ''payload content is not a map''),
                          c', lg)))))"

subsection \<open>The profile manager's loop\<close>

text \<open>
  The \<^verbatim>\<open>Evaluator\<close> interface, over the evaluator's own state \<open>'e\<close>, with the constructor
  \<^verbatim>\<open>newProfileEvaluator\<close>; \<open>'r\<close> is the type \<^verbatim>\<open>map[string]string\<close> of the results.
\<close>

record ('pr, 'mv, 'e, 'r) evaluator =
  newProfileEvaluator :: "'pr \<Rightarrow> 'e"
  AddValue :: "'mv \<Rightarrow> 'e \<Rightarrow> 'e"
  Evaluate :: "'e \<Rightarrow> ('r \<times> goError) \<times> 'e"

datatype metricServerState = Serving | ShutDown

text \<open>
  The \<^verbatim>\<open>Manager\<close> with the local variable \<^verbatim>\<open>metricChannel\<close> of \<^verbatim>\<open>run\<close> (\<open>True\<close> when it
  is not \<^verbatim>\<open>nil\<close>). \<open>OutputCh\<close> lists the values that went through the channel, oldest
  first. The channel has no buffer, so a send waits until the receiver takes the value: the
  model follows the loop in the runs where the receiver takes every value sent.
\<close>

record ('e, 'r) manager =
  OutputCh :: "'r list"
  profileEvaluator :: "'e option"
  metricServer :: "metricServerState option"
  metricChannel :: bool

text \<open>
  The case that one round of the \<^verbatim>\<open>select\<close> statement takes. A receive from a \<^verbatim>\<open>nil\<close>
  channel is never ready: while \<open>metricChannel\<close> is \<open>False\<close> the case \<open>MetricValue\<close> cannot
  be taken, and \<open>step\<close> leaves the manager as it is.
\<close>

datatype ('pr, 'mv) selected =
  Recv "'pr option"
| MetricValue 'mv
| Tick
| CtxDone

definition newManager :: "('e, 'r) manager" where
  "newManager = \<lparr>OutputCh = [], profileEvaluator = None, metricServer = None, metricChannel = False\<rparr>"

fun step ::
  "('pr, 'mv, 'e, 'r) evaluator \<Rightarrow> ('e, 'r) manager \<Rightarrow> ('pr, 'mv) selected \<Rightarrow> ('e, 'r) manager" where
  "step ev m (Recv None) =
     (if metricServer m \<noteq> None
      then m\<lparr>metricServer := Some ShutDown, metricChannel := False\<rparr>
      else m)"
| "step ev m (Recv (Some v)) =
     (let m = m\<lparr>profileEvaluator := Some (newProfileEvaluator ev v)\<rparr>
      in if metricServer m = None
         then m\<lparr>metricServer := Some Serving, metricChannel := True\<rparr>
         else m)"
| "step ev m (MetricValue v) =
     (if \<not> metricChannel m then m
      else (case profileEvaluator m of
              None \<Rightarrow> m
            | Some e \<Rightarrow> m\<lparr>profileEvaluator := Some (AddValue ev v e)\<rparr>))"
| "step ev m Tick =
     (case profileEvaluator m of
        None \<Rightarrow> m
      | Some e \<Rightarrow>
          (case Evaluate ev e of
             ((results, err), e') \<Rightarrow>
               (if err \<noteq> None
                then m\<lparr>OutputCh := OutputCh m @ [results], profileEvaluator := Some e'\<rparr>
                else m\<lparr>profileEvaluator := Some e'\<rparr>)))"
| "step ev m CtxDone = m"

text \<open>\<^verbatim>\<open>run\<close> over the cases selected one after the other; \<^verbatim>\<open>ctx.Done()\<close> ends the loop.\<close>

fun run ::
  "('pr, 'mv, 'e, 'r) evaluator \<Rightarrow> ('e, 'r) manager \<Rightarrow> ('pr, 'mv) selected list \<Rightarrow> ('e, 'r) manager" where
  "run ev m [] = m"
| "run ev m (CtxDone # evs) = m"
| "run ev m (s # evs) = run ev (step ev m s) evs"

subsection \<open>Sequences of calls, and what a decorated transport shows\<close>

text \<open>
  One \<^verbatim>\<open>getClient\<close> call per element of the list, each against the certificate manager as
  it is at that call: the results in order, the client at the end, and the whole log.
\<close>

fun getClients ::
  "x509lib \<Rightarrow> certManager list \<Rightarrow> client \<Rightarrow> (string + httpClient) list \<times> client \<times> string list" where
  "getClients lib [] c = ([], c, [])"
| "getClients lib (cm # cms) c =
     (case getClient lib cm c of
        (r, c', lg) \<Rightarrow>
          (case getClients lib cms c' of
             (rs, c'', lg') \<Rightarrow> (r # rs, c'', lg @ lg')))"

text \<open>The number of times a log announces that the transport is built anew.\<close>

definition rebuilds :: "string list \<Rightarrow> nat" where
  "rebuilds lg = length (filter (\<lambda>l. l = recreateMsg) lg)"

text \<open>
  The specification's count: the positions of a sequence of signatures that differ from the
  signature before them, the first one being compared with \<open>prev\<close>.
\<close>

fun signatureChanges :: "bytes \<Rightarrow> bytes list \<Rightarrow> nat" where
  "signatureChanges prev [] = 0"
| "signatureChanges prev (s # ss) = (if s \<noteq> prev then 1 else 0) + signatureChanges s ss"

text \<open>
  The same count when builds may fail: each signature is compared with the signature of the
  last build that succeeded, \<open>stored\<close> at first.
\<close>

fun changesSinceLastBuild :: "x509lib \<Rightarrow> bytes \<Rightarrow> certManager list \<Rightarrow> nat" where
  "changesSinceLastBuild lib stored [] = 0"
| "changesSinceLastBuild lib stored (cm # cms) =
     (if Signature cm \<noteq> stored
      then 1 + changesSinceLastBuild lib
                 (if isl (createTLSConfig lib cm) then stored else Signature cm) cms
      else changesSinceLastBuild lib stored cms)"

text \<open>
  What one request shows on its way through a round tripper: each decorator before it hands
  the request on and after it has the response back, and the base transport on the wire.
\<close>

datatype event = Before string | Wire | After string

fun roundTrip :: "roundTripper \<Rightarrow> event list" where
  "roundTrip (HttpTransport p cfg) = [Wire]"
| "roundTrip (Middleware n t) = Before n # roundTrip t @ [After n]"

text \<open>The transport that \<^verbatim>\<open>createTransport\<close> wraps.\<close>

definition baseTransport :: "x509lib \<Rightarrow> certManager \<Rightarrow> roundTripper" where
  "baseTransport lib cm =
     HttpTransport ProxyFromEnvironment
       (case createTLSConfig lib cm of Inl e \<Rightarrow> None | Inr cfg \<Rightarrow> Some cfg)"

subsection \<open>Test doubles\<close>

text \<open>A key-pair assembly that accepts every pair, and one that rejects every pair.\<close>

definition acceptingLib :: x509lib where
  "acceptingLib =
     \<lparr>pemEncode = (\<lambda>t b. t @ b), MarshalECPrivateKey = (\<lambda>k. k), MarshalPKCS1PrivateKey = (\<lambda>k. k),
      X509KeyPair = (\<lambda>cert k. Inr (TlsCertificate cert k))\<rparr>"


definition managerWith :: "bytes \<Rightarrow> certManager" where
  "managerWith sig = \<lparr>Signature = sig, caRoot = [], certRaw = ''der'', key = RSAPrivateKey ''k''\<rparr>"

definition freshClient :: client where
  "freshClient =
     \<lparr>certificateSignature = [], serverURL = ''https://flotta.example'',
      transportWrappers = [Middleware ''log''], transport = None\<rparr>"


text \<open>
  A backend that answers every request with the given status code and a body that decodes
  to the given content.
\<close>

definition mockBackend :: "int \<Rightarrow> json \<Rightarrow> (unit, unit, json, json) deps" where
  "mockBackend status content =
     \<lparr>x509 = acceptingLib,
      Build = (\<lambda>calls. Inr ()),
      Do = (\<lambda>cl request. Inr \<lparr>StatusCode = status, ReadAllBody = Inr ''body''\<rparr>),
      UnmarshalMessage = (\<lambda>data. Inr \<lparr>Content = content\<rparr>),
      Marshal = (\<lambda>v. Inr ''conf''),
      UnmarshalConfiguration = (\<lambda>j. Inr content),
      configurationModel2Entity = (\<lambda>m. m),
      emptyDeviceConfiguration = JNull\<rparr>"

text \<open>A backend whose bodies do not decode.\<close>

definition garbledBackend :: "int \<Rightarrow> (unit, unit, json, json) deps" where
  "garbledBackend status =
     (mockBackend status JNull)\<lparr>UnmarshalMessage := (\<lambda>data. Inl ''unexpected end of JSON input'')\<rparr>"

text \<open>An evaluator whose \<^verbatim>\<open>Evaluate\<close> always returns the same results and error.\<close>

definition fixedEvaluator ::
  "(string \<times> string) list \<Rightarrow> goError \<Rightarrow> (unit, unit, unit, (string \<times> string) list) evaluator" where
  "fixedEvaluator results err =
     \<lparr>newProfileEvaluator = (\<lambda>profiles. ()), AddValue = (\<lambda>v e. e),
      Evaluate = (\<lambda>e. ((results, err), e))\<rparr>"

section \<open>Properties\<close>

subsection \<open>The middleware chain\<close>

lemma wrapLoop_take:
  "k \<le> length ws \<Longrightarrow> wrapLoop ws (int k - 1) r = foldr (\<lambda>w x. w x) (take k ws) r"
proof (induction k arbitrary: r)
  case 0
  show ?case by (simp add: wrapLoop.simps)
next
  case (Suc k)
  have "wrapLoop ws (int (Suc k) - 1) r = wrapLoop ws (int k - 1) ((ws ! k) r)"
    by (subst wrapLoop.simps) simp
  also have "\<dots> = foldr (\<lambda>w x. w x) (take k ws) ((ws ! k) r)"
    using Suc by simp
  also have "\<dots> = foldr (\<lambda>w x. w x) (take (Suc k) ws) r"
    using Suc.prems by (simp add: take_Suc_conv_app_nth)
  finally show ?case .
qed

lemma wrapLoop_foldr:
  "wrapLoop ws (int (length ws) - 1) r = foldr (\<lambda>w x. w x) ws r"
  using wrapLoop_take [of "length ws" ws r] by simp

lemma createTransport_fst:
  "fst (createTransport lib cm c) = foldr (\<lambda>w x. w x) (transportWrappers c) (baseTransport lib cm)"
  by (simp add: createTransport_def baseTransport_def wrapLoop_foldr Let_def split: sum.splits)

lemma createTransport_snd:
  "snd (createTransport lib cm c) = (case createTLSConfig lib cm of Inl e \<Rightarrow> Some e | Inr cfg \<Rightarrow> None)"
  by (simp add: createTransport_def Let_def split: sum.splits)

lemma roundTrip_foldr_Middleware:
  "roundTrip (foldr (\<lambda>w x. w x) (map Middleware ns) t) = map Before ns @ roundTrip t @ map After (rev ns)"
  by (induction ns) simp_all

text \<open>
  Claim C2. \<^verbatim>\<open>createTransport\<close> applies the wrappers from the last index down to the
  first, each to the running result, so its transport is the right fold of the list over the
  base transport. For a list \<open>[A, B, C]\<close> that is \<open>A (B (C base))\<close>: the wrapper registered
  first is outermost and the one registered last is applied to the base transport itself.
  With decorators that record what they see, the request passes them in registration order
  before it reaches the wire and the response passes them in the reverse order, so the
  first one sees the request first and the response last.
\<close>

theorem createTransport_first_wrapper_outermost:
  "fst (createTransport lib cm c)
     = foldr (\<lambda>wrapper result. wrapper result) (transportWrappers c) (baseTransport lib cm)
   \<and> fst (createTransport lib cm (c\<lparr>transportWrappers := [A, B, C]\<rparr>))
     = A (B (C (baseTransport lib cm)))
   \<and> fst (createTransport lib cm (c\<lparr>transportWrappers := w # ws\<rparr>))
     = w (fst (createTransport lib cm (c\<lparr>transportWrappers := ws\<rparr>)))
   \<and> fst (createTransport lib cm (c\<lparr>transportWrappers := ws @ [w]\<rparr>))
     = foldr (\<lambda>wrapper result. wrapper result) ws (w (baseTransport lib cm))
   \<and> roundTrip (fst (createTransport lib cm (c\<lparr>transportWrappers := map Middleware ns\<rparr>)))
     = map Before ns @ [Wire] @ map After (rev ns)"
  by (simp add: createTransport_fst roundTrip_foldr_Middleware baseTransport_def)

subsection \<open>The rotation guard\<close>

lemma getClient_same:
  "certificateSignature c = Signature cm \<Longrightarrow>
   getClient lib cm c = (Inr \<lparr>Transport = transport c, Timeout = 2 * second\<rparr>, c, [])"
  by (simp add: getClient_def)

lemma getClient_changed_err:
  "certificateSignature c \<noteq> Signature cm \<Longrightarrow> snd (createTransport lib cm c) = Some err \<Longrightarrow>
   getClient lib cm c = (Inl err, c, [recreateMsg])"
  by (cases "createTransport lib cm c") (simp add: getClient_def)

lemma getClient_changed_ok:
  "certificateSignature c \<noteq> Signature cm \<Longrightarrow> snd (createTransport lib cm c) = None \<Longrightarrow>
   getClient lib cm c =
     (Inr \<lparr>Transport = Some (fst (createTransport lib cm c)), Timeout = 2 * second\<rparr>,
      c\<lparr>certificateSignature := Signature cm, transport := Some (fst (createTransport lib cm c))\<rparr>,
      [recreateMsg])"
  by (cases "createTransport lib cm c") (simp add: getClient_def Let_def)

lemma rebuilds_getClient:
  "rebuilds (snd (snd (getClient lib cm c))) = (if certificateSignature c \<noteq> Signature cm then 1 else 0)"
proof (cases "certificateSignature c = Signature cm")
  case True
  then show ?thesis by (simp add: getClient_same rebuilds_def)
next
  case False
  show ?thesis
  proof (cases "snd (createTransport lib cm c)")
    case None
    with False show ?thesis by (simp add: getClient_changed_ok rebuilds_def)
  next
    case (Some err)
    with False show ?thesis by (simp add: getClient_changed_err rebuilds_def)
  qed
qed

lemma rebuilds_append: "rebuilds (xs @ ys) = rebuilds xs + rebuilds ys"
  by (simp add: rebuilds_def)

lemma getClient_ok_signature:
  assumes "\<not> isl (createTLSConfig lib cm)"
  shows "certificateSignature (fst (snd (getClient lib cm c))) = Signature cm"
proof (cases "certificateSignature c = Signature cm")
  case True
  then show ?thesis by (simp add: getClient_same)
next
  case False
  from assms have "snd (createTransport lib cm c) = None"
    by (cases "createTLSConfig lib cm") (simp_all add: createTransport_snd)
  with False show ?thesis by (simp add: getClient_changed_ok)
qed

lemma getClient_signature:
  "certificateSignature (fst (snd (getClient lib cm c)))
     = (if certificateSignature c \<noteq> Signature cm \<and> isl (createTLSConfig lib cm)
        then certificateSignature c else Signature cm)"
proof (cases "certificateSignature c = Signature cm")
  case True
  then show ?thesis by (simp add: getClient_same)
next
  case False
  show ?thesis
  proof (cases "createTLSConfig lib cm")
    case (Inl e)
    then have "snd (createTransport lib cm c) = Some e"
      by (simp add: createTransport_snd)
    with False Inl show ?thesis by (simp add: getClient_changed_err)
  next
    case (Inr cfg)
    then have "snd (createTransport lib cm c) = None"
      by (simp add: createTransport_snd)
    with False Inr show ?thesis by (simp add: getClient_changed_ok)
  qed
qed

lemma rebuilds_getClients_general:
  "rebuilds (snd (snd (getClients lib cms c)))
     = changesSinceLastBuild lib (certificateSignature c) cms"
proof (induction cms arbitrary: c)
  case Nil
  show ?case by (simp add: rebuilds_def)
next
  case (Cons cm cms)
  obtain r c' lg where g: "getClient lib cm c = (r, c', lg)"
    by (cases "getClient lib cm c") auto
  obtain rs c'' lg' where gs: "getClients lib cms c' = (rs, c'', lg')"
    by (cases "getClients lib cms c'") auto
  have sig: "certificateSignature c'
      = (if certificateSignature c \<noteq> Signature cm \<and> isl (createTLSConfig lib cm)
         then certificateSignature c else Signature cm)"
    using getClient_signature [of lib cm c] g by simp
  have one: "rebuilds lg = (if certificateSignature c \<noteq> Signature cm then 1 else 0)"
    using rebuilds_getClient [of lib cm c] g by simp
  have rest: "rebuilds lg' = changesSinceLastBuild lib (certificateSignature c') cms"
    using Cons.IH [of c'] gs by simp
  show ?case
  proof (cases "certificateSignature c = Signature cm")
    case True
    with g gs one rest sig show ?thesis by (simp add: rebuilds_append)
  next
    case False
    with g gs one rest sig show ?thesis by (auto simp add: rebuilds_append)
  qed
qed

lemma rebuilds_getClients:
  "\<forall>cm \<in> set cms. \<not> isl (createTLSConfig lib cm) \<Longrightarrow>
   rebuilds (snd (snd (getClients lib cms c))) = signatureChanges (certificateSignature c) (map Signature cms)"
proof (induction cms arbitrary: c)
  case Nil
  show ?case by (simp add: rebuilds_def)
next
  case (Cons cm cms)
  obtain r c' lg where g: "getClient lib cm c = (r, c', lg)"
    by (cases "getClient lib cm c") auto
  obtain rs c'' lg' where gs: "getClients lib cms c' = (rs, c'', lg')"
    by (cases "getClients lib cms c'") auto
  have sig: "certificateSignature c' = Signature cm"
    using getClient_ok_signature [of lib cm c] Cons.prems g by simp
  have one: "rebuilds lg = (if certificateSignature c \<noteq> Signature cm then 1 else 0)"
    using rebuilds_getClient [of lib cm c] g by simp
  have rest: "rebuilds lg' = signatureChanges (Signature cm) (map Signature cms)"
    using Cons.IH [of c'] Cons.prems gs sig by simp
  show ?case
    using g gs one rest by (auto simp add: rebuilds_append)
qed

text \<open>
  Claim C1. A call of \<^verbatim>\<open>getClient\<close> announces and builds a new transport exactly when the
  stored signature differs from the manager's current one. When they are equal the client is
  left as it was and the cached transport is returned. When they differ and the build
  succeeds, the new transport and the current signature are stored together, so the stored
  signature is the one of the last build that succeeded. Over any sequence of calls the
  number of rebuilds is the number of calls that find a signature other than the one of the
  last build that succeeded; when every build succeeds, that is the number of signatures in
  the sequence that differ from the signature before them.
\<close>

theorem getClient_rebuilds_iff_signature_differs:
  "rebuilds (snd (snd (getClient lib cm c))) = (if certificateSignature c \<noteq> Signature cm then 1 else 0)
   \<and> (certificateSignature c = Signature cm \<longrightarrow>
        getClient lib cm c = (Inr \<lparr>Transport = transport c, Timeout = 2 * second\<rparr>, c, []))
   \<and> (certificateSignature c \<noteq> Signature cm \<longrightarrow> snd (createTransport lib cm c) = None \<longrightarrow>
        getClient lib cm c =
          (Inr \<lparr>Transport = Some (fst (createTransport lib cm c)), Timeout = 2 * second\<rparr>,
           c\<lparr>certificateSignature := Signature cm, transport := Some (fst (createTransport lib cm c))\<rparr>,
           [recreateMsg]))
   \<and> rebuilds (snd (snd (getClients lib cms c)))
        = changesSinceLastBuild lib (certificateSignature c) cms
   \<and> ((\<forall>cm \<in> set cms. \<not> isl (createTLSConfig lib cm)) \<longrightarrow>
        rebuilds (snd (snd (getClients lib cms c)))
          = signatureChanges (certificateSignature c) (map Signature cms))"
  using rebuilds_getClient [of lib cm c] getClient_same [of c cm lib]
    getClient_changed_ok [of c cm lib] rebuilds_getClients [of cms lib c]
    rebuilds_getClients_general [of lib cms c]
  by blast

lemma createTLSConfig_accepting: "\<not> isl (createTLSConfig acceptingLib cm)"
  by (simp add: createTLSConfig_def acceptingLib_def)

theorem getClient_rebuilds_iff_signature_differs_witness:
  "\<not> isl (createTLSConfig acceptingLib (managerWith ''s1''))
   \<and> \<not> isl (createTLSConfig acceptingLib (managerWith ''s2''))
   \<and> certificateSignature freshClient \<noteq> Signature (managerWith ''s1'')
   \<and> snd (createTransport acceptingLib (managerWith ''s1'') freshClient) = None
   \<and> rebuilds (snd (snd (getClient acceptingLib (managerWith ''s1'') freshClient))) = 1
   \<and> rebuilds (snd (snd (getClients acceptingLib
        [managerWith ''s1'', managerWith ''s1'', managerWith ''s2'', managerWith ''s1''] freshClient))) = 3"
proof -
  let ?cms = "[managerWith ''s1'', managerWith ''s1'', managerWith ''s2'', managerWith ''s1'']"
  have h1: "\<forall>cm \<in> set ?cms. \<not> isl (createTLSConfig acceptingLib cm)"
    by (simp add: createTLSConfig_accepting)
  have h2: "certificateSignature freshClient \<noteq> Signature (managerWith ''s1'')"
    by (simp add: freshClient_def managerWith_def)
  have h3: "snd (createTransport acceptingLib (managerWith ''s1'') freshClient) = None"
    using createTLSConfig_accepting [of "managerWith ''s1''"]
    by (cases "createTLSConfig acceptingLib (managerWith ''s1'')") (simp_all add: createTransport_snd)
  have n: "signatureChanges (certificateSignature freshClient) (map Signature ?cms) = 3"
    by (simp add: freshClient_def managerWith_def)
  note inst = getClient_rebuilds_iff_signature_differs
    [of acceptingLib "managerWith ''s1''" freshClient ?cms]
  from inst h2 have one: "rebuilds (snd (snd (getClient acceptingLib (managerWith ''s1'') freshClient))) = 1"
    by presburger
  from inst h1 have "rebuilds (snd (snd (getClients acceptingLib ?cms freshClient)))
      = signatureChanges (certificateSignature freshClient) (map Signature ?cms)"
    by blast
  with n have many: "rebuilds (snd (snd (getClients acceptingLib ?cms freshClient))) = 3"
    by (simp only:)
  from h1 h2 h3 one many show ?thesis by simp
qed





lemma getClients_empty_signature:
  "certificateSignature c = [] \<Longrightarrow> \<forall>cm \<in> set cms. Signature cm = [] \<Longrightarrow>
   getClients lib cms c
     = (replicate (length cms) (Inr \<lparr>Transport = transport c, Timeout = 2 * second\<rparr>), c, [])"
  by (induction cms) (simp_all add: getClient_same)

text \<open>
  Claim C10. A client that \<^verbatim>\<open>New\<close> has just made stores the empty signature and no
  transport. As long as the manager's signature is empty too, every \<^verbatim>\<open>getClient\<close> call
  returns a client whose \<open>Transport\<close> is \<^verbatim>\<open>nil\<close>, builds nothing, logs nothing and leaves
  the client as it is.
\<close>

theorem fresh_client_empty_signature_never_builds:
  assumes "New urlParse logWrap path (Some cm0) = Inr c"
    and "\<forall>cm \<in> set cms. Signature cm = []"
  shows "certificateSignature c = [] \<and> transport c = None
    \<and> (\<forall>cm \<in> set cms. getClient lib cm c = (Inr \<lparr>Transport = None, Timeout = 2 * second\<rparr>, c, []))
    \<and> getClients lib cms c
        = (replicate (length cms) (Inr \<lparr>Transport = None, Timeout = 2 * second\<rparr>), c, [])"
proof -
  from assms(1) have c: "certificateSignature c = []" "transport c = None"
    by (auto simp add: New_def split: sum.splits)
  show ?thesis
    using c assms(2) getClients_empty_signature [of c cms lib] by (simp add: getClient_same)
qed

theorem fresh_client_empty_signature_never_builds_witness:
  "New (\<lambda>p. Inr p) (Middleware ''log'') ''https://flotta.example'' (Some (managerWith [])) = Inr freshClient
   \<and> Signature (managerWith []) = []
   \<and> getClient acceptingLib (managerWith []) freshClient
       = (Inr \<lparr>Transport = None, Timeout = 2 * second\<rparr>, freshClient, [])
   \<and> getClients acceptingLib [managerWith [], managerWith []] freshClient
       = ([Inr \<lparr>Transport = None, Timeout = 2 * second\<rparr>, Inr \<lparr>Transport = None, Timeout = 2 * second\<rparr>],
          freshClient, [])"
proof -
  have h1: "New (\<lambda>p. Inr p) (Middleware ''log'') ''https://flotta.example'' (Some (managerWith []))
      = Inr freshClient"
    by (simp add: New_def freshClient_def)
  have h2: "\<forall>cm \<in> set [managerWith [], managerWith []]. Signature cm = []"
    by (simp add: managerWith_def)
  show ?thesis
    using fresh_client_empty_signature_never_builds [OF h1 h2, of acceptingLib] h1 h2 by simp
qed

subsection \<open>The operations\<close>

lemma showInt_examples:
  "showInt 200 = ''200''" "showInt 201 = ''201''" "showInt 399 = ''399''"
  "showInt 400 = ''400''" "showInt 500 = ''500''"
  by (simp_all add: showInt_def showNat.simps)

lemma mock_Build: "Build (mockBackend status content) calls = Inr ()"
  by (simp add: mockBackend_def)

lemma mock_do:
  "do (mockBackend status content) (managerWith []) freshClient request
     = (Inr \<lparr>StatusCode = status, ReadAllBody = Inr ''body''\<rparr>, freshClient, [])"
  by (simp add: do_def getClient_def mockBackend_def managerWith_def freshClient_def)

lemma mock_processResponse:
  "processResponse (mockBackend status content) \<lparr>StatusCode = s, ReadAllBody = Inr ''body''\<rparr>
     = Inr \<lparr>Content = content\<rparr>"
  by (simp add: processResponse_def mockBackend_def)

text \<open>
  Claim C6. Once the request is built and sent, \<^verbatim>\<open>Enrol\<close> and \<^verbatim>\<open>Heartbeat\<close> return no
  error for a status code of 399 or less, and for 400 or more the error that names the
  operation and prints the code.
\<close>

theorem Enrol_Heartbeat_status_threshold:
  "(Build D (enrolRequest c deviceID enrolInfo) = Inr request \<longrightarrow>
    do D cm c request = (Inr resp, c', lg) \<longrightarrow>
      fst (Enrol D cm c deviceID enrolInfo)
        = (if StatusCode resp \<le> 399 then None
           else Some (''cannot enrol device. code: '' @ showInt (StatusCode resp))))
   \<and> (Build D (heartbeatRequest c deviceID heartbeat) = Inr request \<longrightarrow>
    do D cm c request = (Inr resp, c', lg) \<longrightarrow>
      fst (Heartbeat D cm c deviceID heartbeat)
        = (if StatusCode resp \<le> 399 then None
           else Some (''cannot send heartbeat. code: '' @ showInt (StatusCode resp))))"
  by (simp add: Enrol_def Heartbeat_def)

theorem Enrol_Heartbeat_status_threshold_witness:
  "fst (Enrol (mockBackend 399 JNull) (managerWith []) freshClient ''d1'' ()) = None
   \<and> fst (Enrol (mockBackend 400 JNull) (managerWith []) freshClient ''d1'' ())
       = Some ''cannot enrol device. code: 400''
   \<and> fst (Heartbeat (mockBackend 201 JNull) (managerWith []) freshClient ''d1'' ()) = None
   \<and> fst (Heartbeat (mockBackend 500 JNull) (managerWith []) freshClient ''d1'' ())
       = Some ''cannot send heartbeat. code: 500''"
  using
    Enrol_Heartbeat_status_threshold [of "mockBackend 399 JNull" freshClient "''d1''" "()" "()"
      "managerWith []" "\<lparr>StatusCode = 399, ReadAllBody = Inr ''body''\<rparr>" freshClient "[]" "()"]
    Enrol_Heartbeat_status_threshold [of "mockBackend 400 JNull" freshClient "''d1''" "()" "()"
      "managerWith []" "\<lparr>StatusCode = 400, ReadAllBody = Inr ''body''\<rparr>" freshClient "[]" "()"]
    Enrol_Heartbeat_status_threshold [of "mockBackend 201 JNull" freshClient "''d1''" "()" "()"
      "managerWith []" "\<lparr>StatusCode = 201, ReadAllBody = Inr ''body''\<rparr>" freshClient "[]" "()"]
    Enrol_Heartbeat_status_threshold [of "mockBackend 500 JNull" freshClient "''d1''" "()" "()"
      "managerWith []" "\<lparr>StatusCode = 500, ReadAllBody = Inr ''body''\<rparr>" freshClient "[]" "()"]
  by (simp add: mock_Build mock_do showInt_examples)

text \<open>
  Claim C3. When the reply decodes to a content that is a mapping, \<^verbatim>\<open>Register\<close> returns
  the empty response with the error \<open>cannot get certificate from payload\<close> if the mapping
  has no \<open>certificate\<close> entry, and returns no error and exactly the bytes of the string if
  the entry is a string.
\<close>

theorem Register_certificate_narrowing:
  assumes "Build D (registerRequest c deviceID registerInfo) = Inr request"
    and "do D cm c request = (Inr res, c', lg)"
    and "processResponse D res = Inr message"
    and "Content message = JObject certMap"
  shows "(map_of certMap certificateKey = None \<longrightarrow>
            fst (Register D cm c deviceID registerInfo)
              = Returned (\<lparr>SignedCSR = []\<rparr>, Some ''cannot get certificate from payload''))
       \<and> (\<forall>s. map_of certMap certificateKey = Some (JString s) \<longrightarrow>
            fst (Register D cm c deviceID registerInfo) = Returned (\<lparr>SignedCSR = s\<rparr>, None))"
  using assms by (simp add: Register_def)

theorem Register_certificate_narrowing_witness:
  "fst (Register (mockBackend 200 (JObject [(''status'', JString ''ok'')])) (managerWith [])
        freshClient ''d1'' ())
     = Returned (\<lparr>SignedCSR = []\<rparr>, Some ''cannot get certificate from payload'')
   \<and> fst (Register (mockBackend 200 (JObject [(''certificate'', JString ''-----BEGIN CERTIFICATE-----'')]))
        (managerWith []) freshClient ''d1'' ())
     = Returned (\<lparr>SignedCSR = ''-----BEGIN CERTIFICATE-----''\<rparr>, None)"
proof -
  let ?res = "\<lparr>StatusCode = 200, ReadAllBody = Inr ''body''\<rparr>"
  let ?m1 = "[(''status'', JString ''ok'')]"
  let ?m2 = "[(''certificate'', JString ''-----BEGIN CERTIFICATE-----'')]"
  have a: "map_of ?m1 certificateKey = None"
    by (simp add: certificateKey_def)
  have b: "map_of ?m2 certificateKey = Some (JString ''-----BEGIN CERTIFICATE-----'')"
    by (simp add: certificateKey_def)
  have bd: "Build (mockBackend 200 j) (registerRequest freshClient ''d1'' ()) = Inr ()" for j
    by (rule mock_Build)
  have dd: "do (mockBackend 200 j) (managerWith []) freshClient () = (Inr ?res, freshClient, [])" for j
    by (rule mock_do)
  have pr: "processResponse (mockBackend 200 j) ?res = Inr \<lparr>Content = j\<rparr>" for j
    by (rule mock_processResponse)
  have c1: "Content \<lparr>Content = JObject ?m1\<rparr> = JObject ?m1"
    by simp
  have c2: "Content \<lparr>Content = JObject ?m2\<rparr> = JObject ?m2"
    by simp
  from Register_certificate_narrowing [OF bd dd pr c1] a
  have r1: "fst (Register (mockBackend 200 (JObject ?m1)) (managerWith []) freshClient ''d1'' ())
     = Returned (\<lparr>SignedCSR = []\<rparr>, Some ''cannot get certificate from payload'')"
    by blast
  from Register_certificate_narrowing [OF bd dd pr c2] b
  have r2: "fst (Register (mockBackend 200 (JObject ?m2)) (managerWith []) freshClient ''d1'' ())
     = Returned (\<lparr>SignedCSR = ''-----BEGIN CERTIFICATE-----''\<rparr>, None)"
    by blast
  from r1 r2 show ?thesis by simp
qed

text \<open>
  Claim C4 says that \<^verbatim>\<open>Register\<close> returns an error for every reply. The source guards the
  assertion of the content to a mapping with its second result, but asserts the
  \<open>certificate\<close> entry to a string without one: on a number or a nested object the call
  panics.
\<close>

theorem Register_panics_on_non_string_certificate:
  "fst (Register (mockBackend 200 (JObject [(''certificate'', JNumber 42)])) (managerWith [])
        freshClient ''d1'' ())
     = Panicked ''interface conversion: interface {} is float64, not string''
   \<and> fst (Register (mockBackend 200 (JObject [(''certificate'', JObject [(''pem'', JString ''x'')])]))
        (managerWith []) freshClient ''d1'' ())
     = Panicked ''interface conversion: interface {} is map[string]interface {}, not string''"
  by (simp add: Register_def mock_Build mock_do mock_processResponse certificateKey_def)

text \<open>
  Claim C7 says that the base path follows the server address with one slash. The format
  string puts a slash between the address and \<^verbatim>\<open>rootUrl\<close>, which begins with a slash
  itself: every URL handed to the request builder has two slashes at that join.
\<close>

theorem request_url_doubles_the_slash:
  "outUrl c deviceID = serverURL c @ ''//api/flotta-management/v1/data/'' @ deviceID @ ''/out''
   \<and> inUrl c deviceID = serverURL c @ ''//api/flotta-management/v1/data/'' @ deviceID @ ''/in''
   \<and> outUrl c deviceID \<noteq> serverURL c @ ''/api/flotta-management/v1/data/'' @ deviceID @ ''/out''
   \<and> inUrl c deviceID \<noteq> serverURL c @ ''/api/flotta-management/v1/data/'' @ deviceID @ ''/in''
   \<and> Url (outUrl c deviceID) \<in> set (enrolRequest c deviceID enrolInfo)
   \<and> Url (outUrl c deviceID) \<in> set (registerRequest c deviceID registerInfo)
   \<and> Url (outUrl c deviceID) \<in> set (heartbeatRequest c deviceID heartbeat)
   \<and> Url (inUrl c deviceID) \<in> set (configurationRequest c deviceID :: 'p builderCall list)
   \<and> outUrl freshClient ''d1'' = ''https://flotta.example//api/flotta-management/v1/data/d1/out''
   \<and> inUrl freshClient ''d1'' = ''https://flotta.example//api/flotta-management/v1/data/d1/in''"
  by (simp add: outUrl_def inUrl_def rootUrl_def enrolRequest_def registerRequest_def
      heartbeatRequest_def configurationRequest_def freshClient_def)

subsection \<open>The profile manager's tick\<close>

text \<open>
  Claim C9 says that a tick sends the results when the evaluation succeeds and nothing when
  it fails. The source tests \<^verbatim>\<open>err != nil\<close> before the send: a tick sends the results
  exactly when \<^verbatim>\<open>Evaluate\<close> returned an error, and a successful evaluation is never sent.
\<close>

theorem tick_sends_results_only_on_error:
  "OutputCh (step ev (m\<lparr>profileEvaluator := Some e\<rparr>) Tick)
     = (case Evaluate ev e of
          ((results, err), e') \<Rightarrow> if err = None then OutputCh m else OutputCh m @ [results])
   \<and> OutputCh (run (fixedEvaluator [(''p1'', ''active'')] None) newManager
        [Recv (Some ()), Tick, Tick]) = []
   \<and> OutputCh (run (fixedEvaluator [] (Some ''evaluation failed'')) newManager
        [Recv (Some ()), Tick]) = [[]]"
  by (simp add: fixedEvaluator_def newManager_def split: prod.splits)

subsection \<open>Decoding and the status code\<close>

lemma garbled_Build: "Build (garbledBackend status) calls = Inr ()"
  by (simp add: garbledBackend_def mockBackend_def)

lemma garbled_do:
  "do (garbledBackend status) (managerWith []) freshClient request
     = (Inr \<lparr>StatusCode = status, ReadAllBody = Inr ''body''\<rparr>, freshClient, [])"
  by (simp add: do_def getClient_def garbledBackend_def mockBackend_def managerWith_def
      freshClient_def)

lemma garbled_processResponse:
  "processResponse (garbledBackend status) \<lparr>StatusCode = s, ReadAllBody = Inr ''body''\<rparr>
     = Inl (''cannot read marshal body into message response '' @ quoted ''unexpected end of JSON input'')"
  by (simp add: processResponse_def garbledBackend_def mockBackend_def)

lemma do_status:
  "do (D\<lparr>Do := \<lambda>cl rq. map_sum id (\<lambda>r. r\<lparr>StatusCode := f r\<rparr>) (Do D cl rq)\<rparr>) cm c request
     = (case do D cm c request of
          (Inl e, c', lg) \<Rightarrow> (Inl e, c', lg)
        | (Inr r, c', lg) \<Rightarrow> (Inr (r\<lparr>StatusCode := f r\<rparr>), c', lg))"
proof -
  obtain g c' lg where g: "getClient (x509 D) cm c = (g, c', lg)"
    by (cases "getClient (x509 D) cm c") auto
  show ?thesis
  proof (cases g)
    case (Inl e)
    with g show ?thesis by (simp add: do_def)
  next
    case (Inr cl)
    with g show ?thesis by (cases "Do D cl request") (simp_all add: do_def)
  qed
qed

lemma processResponse_status:
  "processResponse (D\<lparr>Do := g\<rparr>) (r\<lparr>StatusCode := s\<rparr>) = processResponse D r"
  by (simp add: processResponse_def split: sum.splits)

lemma Register_status:
  "Register (D\<lparr>Do := \<lambda>cl rq. map_sum id (\<lambda>r. r\<lparr>StatusCode := f r\<rparr>) (Do D cl rq)\<rparr>) cm c deviceID registerInfo
     = Register D cm c deviceID registerInfo"
proof (cases "Build D (registerRequest c deviceID registerInfo)")
  case (Inl err)
  then show ?thesis by (simp add: Register_def)
next
  case (Inr request)
  obtain r c' lg where d: "do D cm c request = (r, c', lg)"
    by (cases "do D cm c request") auto
  show ?thesis
  proof (cases r)
    case (Inl e)
    with Inr d show ?thesis by (simp add: Register_def do_status)
  next
    case (Inr res)
    with \<open>Build D (registerRequest c deviceID registerInfo) = Inr request\<close> d show ?thesis
      by (simp add: Register_def do_status processResponse_status
          split: sum.splits json.splits option.splits)
  qed
qed

lemma GetConfiguration_status:
  "GetConfiguration (D\<lparr>Do := \<lambda>cl rq. map_sum id (\<lambda>r. r\<lparr>StatusCode := f r\<rparr>) (Do D cl rq)\<rparr>) cm c deviceID
     = GetConfiguration D cm c deviceID"
proof (cases "Build D (configurationRequest c deviceID)")
  case (Inl err)
  then show ?thesis by (simp add: GetConfiguration_def)
next
  case (Inr request)
  obtain r c' lg where d: "do D cm c request = (r, c', lg)"
    by (cases "do D cm c request") auto
  show ?thesis
  proof (cases r)
    case (Inl e)
    with Inr d show ?thesis by (simp add: GetConfiguration_def do_status)
  next
    case (Inr res)
    with \<open>Build D (configurationRequest c deviceID) = Inr request\<close> d show ?thesis
      by (simp add: GetConfiguration_def do_status processResponse_status
          split: sum.splits json.splits option.splits)
  qed
qed

lemma Register_decoded:
  assumes "Build D (registerRequest c deviceID registerInfo) = Inr request"
    and "do D cm c request = (Inr res, c', lg)"
  shows "(\<forall>err. ReadAllBody res = Inl err \<longrightarrow>
            fst (Register D cm c deviceID registerInfo)
              = Returned (\<lparr>SignedCSR = []\<rparr>, Some (''cannot read response body '' @ quoted err)))
       \<and> (\<forall>data err. ReadAllBody res = Inr data \<longrightarrow> UnmarshalMessage D data = Inl err \<longrightarrow>
            fst (Register D cm c deviceID registerInfo)
              = Returned (\<lparr>SignedCSR = []\<rparr>,
                  Some (''cannot read marshal body into message response '' @ quoted err)))
       \<and> (\<forall>data message. ReadAllBody res = Inr data \<longrightarrow> UnmarshalMessage D data = Inr message \<longrightarrow>
            (\<forall>certMap. Content message \<noteq> JObject certMap) \<longrightarrow>
            fst (Register D cm c deviceID registerInfo)
              = Returned (\<lparr>SignedCSR = []\<rparr>, Some ''payload content is not a map''))
       \<and> (\<forall>data message certMap. ReadAllBody res = Inr data \<longrightarrow>
            UnmarshalMessage D data = Inr message \<longrightarrow> Content message = JObject certMap \<longrightarrow>
            map_of certMap certificateKey = None \<longrightarrow>
            fst (Register D cm c deviceID registerInfo)
              = Returned (\<lparr>SignedCSR = []\<rparr>, Some ''cannot get certificate from payload''))
       \<and> (\<forall>data message certMap s. ReadAllBody res = Inr data \<longrightarrow>
            UnmarshalMessage D data = Inr message \<longrightarrow> Content message = JObject certMap \<longrightarrow>
            map_of certMap certificateKey = Some (JString s) \<longrightarrow>
            fst (Register D cm c deviceID registerInfo) = Returned (\<lparr>SignedCSR = s\<rparr>, None))
       \<and> (\<forall>data message certMap cert. ReadAllBody res = Inr data \<longrightarrow>
            UnmarshalMessage D data = Inr message \<longrightarrow> Content message = JObject certMap \<longrightarrow>
            map_of certMap certificateKey = Some cert \<longrightarrow> (\<forall>s. cert \<noteq> JString s) \<longrightarrow>
            fst (Register D cm c deviceID registerInfo)
              = Panicked (''interface conversion: interface {} is '' @ dynType cert
                          @ '', not string''))"
  using assms
  by (auto simp add: Register_def processResponse_def split: json.splits)

lemma GetConfiguration_decoded:
  assumes "Build D (configurationRequest c deviceID) = Inr request"
    and "do D cm c request = (Inr res, c', lg)"
  shows "(\<forall>err. ReadAllBody res = Inl err \<longrightarrow>
            fst (GetConfiguration D cm c deviceID)
              = (emptyDeviceConfiguration D, Some (''cannot read response body '' @ quoted err)))
       \<and> (\<forall>data err. ReadAllBody res = Inr data \<longrightarrow> UnmarshalMessage D data = Inl err \<longrightarrow>
            fst (GetConfiguration D cm c deviceID)
              = (emptyDeviceConfiguration D,
                 Some (''cannot read marshal body into message response '' @ quoted err)))
       \<and> (\<forall>data message. ReadAllBody res = Inr data \<longrightarrow> UnmarshalMessage D data = Inr message \<longrightarrow>
            (\<forall>fields. Content message \<noteq> JObject fields) \<longrightarrow>
            fst (GetConfiguration D cm c deviceID)
              = (emptyDeviceConfiguration D, Some ''payload content is not a map''))
       \<and> (\<forall>data message fields. ReadAllBody res = Inr data \<longrightarrow>
            UnmarshalMessage D data = Inr message \<longrightarrow> Content message = JObject fields \<longrightarrow>
            map_of fields ''configuration'' = None \<longrightarrow>
            fst (GetConfiguration D cm c deviceID)
              = (emptyDeviceConfiguration D, Some ''cannot find configuration data in payload''))
       \<and> (\<forall>data message fields conf err. ReadAllBody res = Inr data \<longrightarrow>
            UnmarshalMessage D data = Inr message \<longrightarrow> Content message = JObject fields \<longrightarrow>
            map_of fields ''configuration'' = Some conf \<longrightarrow> Marshal D conf = Inl err \<longrightarrow>
            fst (GetConfiguration D cm c deviceID)
              = (emptyDeviceConfiguration D, Some (''cannot read configuration: '' @ quoted err)))
       \<and> (\<forall>data message fields conf j err. ReadAllBody res = Inr data \<longrightarrow>
            UnmarshalMessage D data = Inr message \<longrightarrow> Content message = JObject fields \<longrightarrow>
            map_of fields ''configuration'' = Some conf \<longrightarrow> Marshal D conf = Inr j \<longrightarrow>
            UnmarshalConfiguration D j = Inl err \<longrightarrow>
            fst (GetConfiguration D cm c deviceID)
              = (emptyDeviceConfiguration D, Some (''cannot read configuration: '' @ quoted err)))
       \<and> (\<forall>data message fields conf j m. ReadAllBody res = Inr data \<longrightarrow>
            UnmarshalMessage D data = Inr message \<longrightarrow> Content message = JObject fields \<longrightarrow>
            map_of fields ''configuration'' = Some conf \<longrightarrow> Marshal D conf = Inr j \<longrightarrow>
            UnmarshalConfiguration D j = Inr m \<longrightarrow>
            fst (GetConfiguration D cm c deviceID) = (configurationModel2Entity D m, None))"
  using assms
  by (auto simp add: GetConfiguration_def processResponse_def split: json.splits)

text \<open>
  Claim C8 says that the decoding operations never branch on the status code, that every
  malformed body or missing field becomes a descriptive error, and that a body that decodes
  gives a successful result whatever the status. \<^verbatim>\<open>Register\<close> and \<^verbatim>\<open>GetConfiguration\<close> indeed
  never read the status code: replacing the status code of every response by any other
  leaves their results unchanged, and what they return is decided by the body alone. A body
  that cannot be read, a body that does not decode, a content that is not a map, a missing
  field and a configuration that cannot be encoded or decoded again each give their own
  error, and a body that decodes gives the result without an error. One shape of body does
  not: a \<open>certificate\<close> entry that is not a string makes \<^verbatim>\<open>Register\<close> panic.
\<close>

theorem decoding_operations_ignore_status:
  "Register (D\<lparr>Do := \<lambda>cl rq. map_sum id (\<lambda>r. r\<lparr>StatusCode := f r\<rparr>) (Do D cl rq)\<rparr>) cm c deviceID registerInfo
     = Register D cm c deviceID registerInfo
   \<and> GetConfiguration (D\<lparr>Do := \<lambda>cl rq. map_sum id (\<lambda>r. r\<lparr>StatusCode := f r\<rparr>) (Do D cl rq)\<rparr>) cm c deviceID
     = GetConfiguration D cm c deviceID
   \<and> (Build D (registerRequest c deviceID registerInfo) = Inr request \<longrightarrow>
      do D cm c request = (Inr res, c', lg) \<longrightarrow>
  (\<forall>err. ReadAllBody res = Inl err \<longrightarrow>
              fst (Register D cm c deviceID registerInfo)
                = Returned (\<lparr>SignedCSR = []\<rparr>, Some (''cannot read response body '' @ quoted err)))
         \<and> (\<forall>data err. ReadAllBody res = Inr data \<longrightarrow> UnmarshalMessage D data = Inl err \<longrightarrow>
              fst (Register D cm c deviceID registerInfo)
                = Returned (\<lparr>SignedCSR = []\<rparr>,
                    Some (''cannot read marshal body into message response '' @ quoted err)))
         \<and> (\<forall>data message. ReadAllBody res = Inr data \<longrightarrow> UnmarshalMessage D data = Inr message \<longrightarrow>
              (\<forall>certMap. Content message \<noteq> JObject certMap) \<longrightarrow>
              fst (Register D cm c deviceID registerInfo)
                = Returned (\<lparr>SignedCSR = []\<rparr>, Some ''payload content is not a map''))
         \<and> (\<forall>data message certMap. ReadAllBody res = Inr data \<longrightarrow>
              UnmarshalMessage D data = Inr message \<longrightarrow> Content message = JObject certMap \<longrightarrow>
              map_of certMap certificateKey = None \<longrightarrow>
              fst (Register D cm c deviceID registerInfo)
                = Returned (\<lparr>SignedCSR = []\<rparr>, Some ''cannot get certificate from payload''))
         \<and> (\<forall>data message certMap s. ReadAllBody res = Inr data \<longrightarrow>
              UnmarshalMessage D data = Inr message \<longrightarrow> Content message = JObject certMap \<longrightarrow>
              map_of certMap certificateKey = Some (JString s) \<longrightarrow>
              fst (Register D cm c deviceID registerInfo) = Returned (\<lparr>SignedCSR = s\<rparr>, None))
         \<and> (\<forall>data message certMap cert. ReadAllBody res = Inr data \<longrightarrow>
              UnmarshalMessage D data = Inr message \<longrightarrow> Content message = JObject certMap \<longrightarrow>
              map_of certMap certificateKey = Some cert \<longrightarrow> (\<forall>s. cert \<noteq> JString s) \<longrightarrow>
              fst (Register D cm c deviceID registerInfo)
                = Panicked (''interface conversion: interface {} is '' @ dynType cert
                            @ '', not string'')))
   \<and> (Build D (configurationRequest c deviceID) = Inr request \<longrightarrow>
      do D cm c request = (Inr res, c', lg) \<longrightarrow>
  (\<forall>err. ReadAllBody res = Inl err \<longrightarrow>
              fst (GetConfiguration D cm c deviceID)
                = (emptyDeviceConfiguration D, Some (''cannot read response body '' @ quoted err)))
         \<and> (\<forall>data err. ReadAllBody res = Inr data \<longrightarrow> UnmarshalMessage D data = Inl err \<longrightarrow>
              fst (GetConfiguration D cm c deviceID)
                = (emptyDeviceConfiguration D,
                   Some (''cannot read marshal body into message response '' @ quoted err)))
         \<and> (\<forall>data message. ReadAllBody res = Inr data \<longrightarrow> UnmarshalMessage D data = Inr message \<longrightarrow>
              (\<forall>fields. Content message \<noteq> JObject fields) \<longrightarrow>
              fst (GetConfiguration D cm c deviceID)
                = (emptyDeviceConfiguration D, Some ''payload content is not a map''))
         \<and> (\<forall>data message fields. ReadAllBody res = Inr data \<longrightarrow>
              UnmarshalMessage D data = Inr message \<longrightarrow> Content message = JObject fields \<longrightarrow>
              map_of fields ''configuration'' = None \<longrightarrow>
              fst (GetConfiguration D cm c deviceID)
                = (emptyDeviceConfiguration D, Some ''cannot find configuration data in payload''))
         \<and> (\<forall>data message fields conf err. ReadAllBody res = Inr data \<longrightarrow>
              UnmarshalMessage D data = Inr message \<longrightarrow> Content message = JObject fields \<longrightarrow>
              map_of fields ''configuration'' = Some conf \<longrightarrow> Marshal D conf = Inl err \<longrightarrow>
              fst (GetConfiguration D cm c deviceID)
                = (emptyDeviceConfiguration D, Some (''cannot read configuration: '' @ quoted err)))
         \<and> (\<forall>data message fields conf j err. ReadAllBody res = Inr data \<longrightarrow>
              UnmarshalMessage D data = Inr message \<longrightarrow> Content message = JObject fields \<longrightarrow>
              map_of fields ''configuration'' = Some conf \<longrightarrow> Marshal D conf = Inr j \<longrightarrow>
              UnmarshalConfiguration D j = Inl err \<longrightarrow>
              fst (GetConfiguration D cm c deviceID)
                = (emptyDeviceConfiguration D, Some (''cannot read configuration: '' @ quoted err)))
         \<and> (\<forall>data message fields conf j m. ReadAllBody res = Inr data \<longrightarrow>
              UnmarshalMessage D data = Inr message \<longrightarrow> Content message = JObject fields \<longrightarrow>
              map_of fields ''configuration'' = Some conf \<longrightarrow> Marshal D conf = Inr j \<longrightarrow>
              UnmarshalConfiguration D j = Inr m \<longrightarrow>
              fst (GetConfiguration D cm c deviceID) = (configurationModel2Entity D m, None)))"
  using Register_status [where D = D and f = f and cm = cm and c = c and deviceID = deviceID
      and registerInfo = registerInfo]
    GetConfiguration_status [where D = D and f = f and cm = cm and c = c and deviceID = deviceID]
    Register_decoded [where D = D and c = c and deviceID = deviceID and registerInfo = registerInfo
      and request = request and cm = cm and res = res and c' = c' and lg = lg]
    GetConfiguration_decoded [where D = D and c = c and deviceID = deviceID
      and request = request and cm = cm and res = res and c' = c' and lg = lg]
  by blast

theorem decoding_operations_ignore_status_witness:
  "fst (Register (mockBackend 500 (JObject [(''certificate'', JString ''pem'')])) (managerWith [])
        freshClient ''d1'' ())
     = Returned (\<lparr>SignedCSR = ''pem''\<rparr>, None)
   \<and> fst (Register (mockBackend 200 (JObject [(''status'', JString ''ok'')])) (managerWith [])
        freshClient ''d1'' ())
     = Returned (\<lparr>SignedCSR = []\<rparr>, Some ''cannot get certificate from payload'')
   \<and> fst (Register (mockBackend 200 (JArray [])) (managerWith []) freshClient ''d1'' ())
     = Returned (\<lparr>SignedCSR = []\<rparr>, Some ''payload content is not a map'')
   \<and> fst (Register (garbledBackend 200) (managerWith []) freshClient ''d1'' ())
     = Returned (\<lparr>SignedCSR = []\<rparr>,
         Some (''cannot read marshal body into message response ''
               @ quoted ''unexpected end of JSON input''))
   \<and> fst (Register (mockBackend 500 (JObject [(''certificate'', JNull)])) (managerWith [])
        freshClient ''d1'' ())
     = Panicked ''interface conversion: interface {} is nil, not string''
   \<and> fst (GetConfiguration (mockBackend 404 (JObject [(''configuration'', JObject [])]))
        (managerWith []) freshClient ''d1'')
     = (JObject [(''configuration'', JObject [])], None)
   \<and> fst (GetConfiguration (mockBackend 200 (JObject [])) (managerWith []) freshClient ''d1'')
     = (JNull, Some ''cannot find configuration data in payload'')"
proof -
  let ?ok = "JObject [(''certificate'', JString ''pem'')]"
  let ?no = "JObject [(''status'', JString ''ok'')]"
  let ?nil = "JObject [(''certificate'', JNull)]"
  let ?cf = "JObject [(''configuration'', JObject [])]"
  have bd: "Build (mockBackend st j) calls = Inr ()" for st j calls
    by (rule mock_Build)
  have dd: "do (mockBackend st j) (managerWith []) freshClient ()
      = (Inr \<lparr>StatusCode = st, ReadAllBody = Inr ''body''\<rparr>, freshClient, [])" for st j
    by (rule mock_do)
  have um: "UnmarshalMessage (mockBackend st j) data = Inr \<lparr>Content = j\<rparr>" for st j data
    by (simp add: mockBackend_def)
  have gum: "UnmarshalMessage (garbledBackend st) data = Inl ''unexpected end of JSON input''"
    for st data
    by (simp add: garbledBackend_def)
  have mk: "map_of [(''certificate'', JString ''pem'')] certificateKey = Some (JString ''pem'')"
    "map_of [(''status'', JString ''ok'')] certificateKey = None"
    "map_of [(''certificate'', JNull)] certificateKey = Some JNull"
    by (simp_all add: certificateKey_def)
  have cf: "Marshal (mockBackend st j) v = Inr ''conf''"
    "UnmarshalConfiguration (mockBackend st j) b = Inr j"
    "configurationModel2Entity (mockBackend st j) m = m"
    "emptyDeviceConfiguration (mockBackend st j) = JNull" for st j v b m
    by (simp_all add: mockBackend_def)
  note r500 = decoding_operations_ignore_status
    [where D = "mockBackend 500 ?ok" and c = freshClient and cm = "managerWith []"
       and deviceID = "''d1''" and registerInfo = "()" and request = "()"
       and res = "\<lparr>StatusCode = 500, ReadAllBody = Inr ''body''\<rparr>" and c' = freshClient and lg = "[]"]
  note r200 = decoding_operations_ignore_status
    [where D = "mockBackend 200 ?no" and c = freshClient and cm = "managerWith []"
       and deviceID = "''d1''" and registerInfo = "()" and request = "()"
       and res = "\<lparr>StatusCode = 200, ReadAllBody = Inr ''body''\<rparr>" and c' = freshClient and lg = "[]"]
  note a200 = decoding_operations_ignore_status
    [where D = "mockBackend 200 (JArray [])" and c = freshClient and cm = "managerWith []"
       and deviceID = "''d1''" and registerInfo = "()" and request = "()"
       and res = "\<lparr>StatusCode = 200, ReadAllBody = Inr ''body''\<rparr>" and c' = freshClient and lg = "[]"]
  note e200 = decoding_operations_ignore_status
    [where D = "garbledBackend 200" and c = freshClient and cm = "managerWith []"
       and deviceID = "''d1''" and registerInfo = "()" and request = "()"
       and res = "\<lparr>StatusCode = 200, ReadAllBody = Inr ''body''\<rparr>" and c' = freshClient and lg = "[]"]
  note p500 = decoding_operations_ignore_status
    [where D = "mockBackend 500 ?nil" and c = freshClient and cm = "managerWith []"
       and deviceID = "''d1''" and registerInfo = "()" and request = "()"
       and res = "\<lparr>StatusCode = 500, ReadAllBody = Inr ''body''\<rparr>" and c' = freshClient and lg = "[]"]
  note g404 = decoding_operations_ignore_status
    [where D = "mockBackend 404 ?cf" and c = freshClient and cm = "managerWith []"
       and deviceID = "''d1''" and registerInfo = "()" and request = "()"
       and res = "\<lparr>StatusCode = 404, ReadAllBody = Inr ''body''\<rparr>" and c' = freshClient and lg = "[]"]
  note g200 = decoding_operations_ignore_status
    [where D = "mockBackend 200 (JObject [])" and c = freshClient and cm = "managerWith []"
       and deviceID = "''d1''" and registerInfo = "()" and request = "()"
       and res = "\<lparr>StatusCode = 200, ReadAllBody = Inr ''body''\<rparr>" and c' = freshClient and lg = "[]"]
  have a: "fst (Register (mockBackend 500 ?ok) (managerWith []) freshClient ''d1'' ())
      = Returned (\<lparr>SignedCSR = ''pem''\<rparr>, None)"
    using r500 bd dd um mk by simp
  have b: "fst (Register (mockBackend 200 ?no) (managerWith []) freshClient ''d1'' ())
      = Returned (\<lparr>SignedCSR = []\<rparr>, Some ''cannot get certificate from payload'')"
    using r200 bd dd um mk by simp
  have b': "fst (Register (mockBackend 200 (JArray [])) (managerWith []) freshClient ''d1'' ())
      = Returned (\<lparr>SignedCSR = []\<rparr>, Some ''payload content is not a map'')"
    using a200 bd dd um by simp
  have e: "fst (Register (garbledBackend 200) (managerWith []) freshClient ''d1'' ())
      = Returned (\<lparr>SignedCSR = []\<rparr>,
          Some (''cannot read marshal body into message response ''
                @ quoted ''unexpected end of JSON input''))"
    using e200 garbled_Build [of 200] garbled_do [of 200] gum by simp
  have p: "fst (Register (mockBackend 500 ?nil) (managerWith []) freshClient ''d1'' ())
      = Panicked ''interface conversion: interface {} is nil, not string''"
    using p500 bd dd um mk by simp
  have c: "fst (GetConfiguration (mockBackend 404 ?cf) (managerWith []) freshClient ''d1'')
      = (?cf, None)"
    using g404 bd dd um cf by simp
  have d: "fst (GetConfiguration (mockBackend 200 (JObject [])) (managerWith []) freshClient ''d1'')
      = (JNull, Some ''cannot find configuration data in payload'')"
    using g200 bd dd um cf by simp
  from a b b' e p c d show ?thesis by simp
qed

end
